theory Spec2Isabelle
  imports Complex_Main "HOL-Library.Stream"
begin

section \<open>GeoVision (main.js): numbers, randomness and hazards\<close>

subsection \<open>JavaScript numbers\<close>

text \<open>
  A coordinate is a JavaScript number: \<open>parseFloat\<close> and the map widget can deliver any
  of them, so the model keeps the three values that are not finite. A finite number is
  its real value. The only arithmetic the code does on coordinates is the subtraction
  and the absolute value of the earthquake rule; on finite numbers it is modelled by the
  exact real operation (the rounding of the double-precision result is left out).
  Comparisons with \<open>NaN\<close> are false, as in the language.
\<close>

datatype jsnum = NaN | NegInf | Fin real | PosInf

fun js_lt :: "jsnum \<Rightarrow> jsnum \<Rightarrow> bool" where
  "js_lt NaN _ = False"
| "js_lt _ NaN = False"
| "js_lt NegInf NegInf = False"
| "js_lt NegInf _ = True"
| "js_lt (Fin x) (Fin y) = (x < y)"
| "js_lt (Fin x) PosInf = True"
| "js_lt (Fin x) NegInf = False"
| "js_lt PosInf _ = False"

definition js_gt :: "jsnum \<Rightarrow> jsnum \<Rightarrow> bool" where
  "js_gt a b = js_lt b a"

fun js_sub :: "jsnum \<Rightarrow> jsnum \<Rightarrow> jsnum" where
  "js_sub NaN _ = NaN"
| "js_sub _ NaN = NaN"
| "js_sub (Fin x) (Fin y) = Fin (x - y)"
| "js_sub (Fin x) PosInf = NegInf"
| "js_sub (Fin x) NegInf = PosInf"
| "js_sub PosInf PosInf = NaN"
| "js_sub PosInf _ = PosInf"
| "js_sub NegInf NegInf = NaN"
| "js_sub NegInf _ = NegInf"

fun Math_abs :: "jsnum \<Rightarrow> jsnum" where
  "Math_abs NaN = NaN"
| "Math_abs NegInf = PosInf"
| "Math_abs (Fin x) = Fin \<bar>x\<bar>"
| "Math_abs PosInf = PosInf"

subsection \<open>The random source\<close>

text \<open>
  \<open>Math.random()\<close> is the one effect of the analysis functions. The state of the
  generator is the stream of the draws still to come; a call takes the first one and
  leaves the rest. A function that does not call it returns the stream it was given.
\<close>

type_synonym rng = "real stream"

definition Math_random :: "rng \<Rightarrow> real \<times> rng" where
  "Math_random g = (shd g, stl g)"

subsection \<open>identifyHazards\<close>

record hazard =
  name :: string
  level :: string

definition identifyHazards :: "jsnum \<Rightarrow> jsnum \<Rightarrow> rng \<Rightarrow> hazard list \<times> rng" where
  "identifyHazards lat lon g =
    (let hazards = [];
         hazards =
           (if js_lt (Math_abs (js_sub lat (Fin 14.5995))) (Fin 2)
               \<or> js_lt (Math_abs (js_sub lat (Fin 10.3157))) (Fin 2)
            then hazards @ [\<lparr>name = ''Earthquake'', level = ''high''\<rparr>]
            else hazards @ [\<lparr>name = ''Earthquake'', level = ''moderate''\<rparr>]);
         hazards =
           (if js_gt lon (Fin 121) \<and> js_lt lon (Fin 126)
            then hazards @ [\<lparr>name = ''Typhoon'', level = ''high''\<rparr>]
            else hazards @ [\<lparr>name = ''Typhoon'', level = ''moderate''\<rparr>]);
         hazards =
           (if js_lt lat (Fin 15) \<and> js_gt lat (Fin 10)
            then hazards @ [\<lparr>name = ''Flooding'', level = ''moderate''\<rparr>]
            else hazards @ [\<lparr>name = ''Flooding'', level = ''low''\<rparr>]);
         (r, g') = Math_random g;
         isCoastal = (r > 0.5);
         hazards =
           (if isCoastal
            then hazards @ [\<lparr>name = ''Tsunami'', level = ''moderate''\<rparr>]
            else hazards);
         hazards =
           (if js_gt lat (Fin 16) \<or> (js_gt lat (Fin 6) \<and> js_lt lat (Fin 10))
            then hazards @ [\<lparr>name = ''Landslide'', level = ''moderate''\<rparr>]
            else hazards)
     in (hazards, g'))"

subsection \<open>calculateResilience\<close>

text \<open>
  The body of \<open>calculateResilience\<close> after its call of \<open>identifyHazards\<close>: the two
  counts, the two subtractions and the clamp.
\<close>

definition scoreHazards :: "hazard list \<Rightarrow> int" where
  "scoreHazards hazards =
    (let highRiskCount = int (length (filter (\<lambda>h. level h = ''high'') hazards));
         moderateRiskCount = int (length (filter (\<lambda>h. level h = ''moderate'') hazards));
         score = 100;
         score = score - highRiskCount * 20;
         score = score - moderateRiskCount * 10
     in max 30 (min 100 score))"

definition calculateResilience :: "jsnum \<Rightarrow> jsnum \<Rightarrow> rng \<Rightarrow> int \<times> rng" where
  "calculateResilience lat lon g =
    (let (hazards, g') = identifyHazards lat lon g
     in (scoreHazards hazards, g'))"

text \<open>
  The scorer as the specification words it: start at 100, take 20 off for each hazard
  of level high and 10 for each of level moderate, one hazard after the other, and
  clamp the result to the interval from 30 to 100.
\<close>

definition spec_penalty :: "hazard \<Rightarrow> int" where
  "spec_penalty h =
    (if level h = ''high'' then 20 else if level h = ''moderate'' then 10 else 0)"

definition spec_ResilienceScorer :: "hazard list \<Rightarrow> int" where
  "spec_ResilienceScorer hazards =
    max 30 (min 100 (foldl (\<lambda>score h. score - spec_penalty h) 100 hazards))"

section \<open>Place names, population and the location report\<close>

subsection \<open>Strings\<close>

text \<open>
  A string is the list of the bytes of its UTF-8 text, so the letters, digits and
  punctuation of ASCII are one \<open>char\<close> each. \<open>toLowerCase\<close> is modelled on the
  letters A to Z; the case mapping of the characters beyond ASCII is not modelled
  (of these only the Kelvin sign U+212A, which becomes k, and U+0130, which becomes i
  and a combining dot, give an ASCII letter). Every keyword the code looks for is
  ASCII.
\<close>

definition lower_char :: "char \<Rightarrow> char" where
  "lower_char c =
    (case map_of (zip ''ABCDEFGHIJKLMNOPQRSTUVWXYZ'' ''abcdefghijklmnopqrstuvwxyz'') c of
       None \<Rightarrow> c
     | Some d \<Rightarrow> d)"

definition toLowerCase :: "string \<Rightarrow> string" where
  "toLowerCase s = map lower_char s"

fun startsWith :: "string \<Rightarrow> string \<Rightarrow> bool" where
  "startsWith s [] = True"
| "startsWith [] (p # ps) = False"
| "startsWith (c # cs) (p # ps) = (c = p \<and> startsWith cs ps)"

fun js_includes :: "string \<Rightarrow> string \<Rightarrow> bool" where
  "js_includes [] pat = (pat = [])"
| "js_includes (c # cs) pat = (startsWith (c # cs) pat \<or> js_includes cs pat)"

text \<open>
  \<open>trim\<close> removes the white space and the line terminators of the language from
  both ends of a string. \<open>whitespaceSeqs\<close> lists them, each as the bytes of its UTF-8
  form: tab, line feed, vertical tab, form feed, carriage return and space; the
  no-break space U+00A0; U+1680; U+2000 to U+200A; the line and paragraph separators
  U+2028 and U+2029; U+202F; U+205F; the ideographic space U+3000; and U+FEFF. No form
  is the beginning of another one, and in UTF-8 text a character ends the string
  exactly when its bytes do, so the white space at either end is removed one form at
  a time.
\<close>

definition whitespaceSeqs :: "string list" where
  "whitespaceSeqs =
    [[CHR 0x09], [CHR 0x0A], [CHR 0x0B], [CHR 0x0C], [CHR 0x0D], [CHR 0x20],
     [CHR 0xC2, CHR 0xA0],
     [CHR 0xE1, CHR 0x9A, CHR 0x80],
     [CHR 0xE2, CHR 0x80, CHR 0x80], [CHR 0xE2, CHR 0x80, CHR 0x81],
     [CHR 0xE2, CHR 0x80, CHR 0x82], [CHR 0xE2, CHR 0x80, CHR 0x83],
     [CHR 0xE2, CHR 0x80, CHR 0x84], [CHR 0xE2, CHR 0x80, CHR 0x85],
     [CHR 0xE2, CHR 0x80, CHR 0x86], [CHR 0xE2, CHR 0x80, CHR 0x87],
     [CHR 0xE2, CHR 0x80, CHR 0x88], [CHR 0xE2, CHR 0x80, CHR 0x89],
     [CHR 0xE2, CHR 0x80, CHR 0x8A],
     [CHR 0xE2, CHR 0x80, CHR 0xA8], [CHR 0xE2, CHR 0x80, CHR 0xA9],
     [CHR 0xE2, CHR 0x80, CHR 0xAF],
     [CHR 0xE2, CHR 0x81, CHR 0x9F],
     [CHR 0xE3, CHR 0x80, CHR 0x80],
     [CHR 0xEF, CHR 0xBB, CHR 0xBF]]"

fun matchLength :: "string list \<Rightarrow> string \<Rightarrow> nat" where
  "matchLength [] s = 0"
| "matchLength (w # ws) s = (if startsWith s w then length w else matchLength ws s)"

fun stripLeading :: "string list \<Rightarrow> string \<Rightarrow> string" where
  "stripLeading seqs [] = []"
| "stripLeading seqs (c # cs) =
     (let n = matchLength seqs (c # cs)
      in if n = 0 then c # cs else stripLeading seqs (drop (n - 1) cs))"

definition trimStart :: "string \<Rightarrow> string" where
  "trimStart s = stripLeading whitespaceSeqs s"

definition trimEnd :: "string \<Rightarrow> string" where
  "trimEnd s = rev (stripLeading (map rev whitespaceSeqs) (rev s))"

definition trim :: "string \<Rightarrow> string" where
  "trim s = trimEnd (trimStart s)"

fun join :: "string \<Rightarrow> string list \<Rightarrow> string" where
  "join sep [] = []"
| "join sep [x] = x"
| "join sep (x # y # ys) = x @ sep @ join sep (y # ys)"

text \<open>
  A value that may be \<open>null\<close> or \<open>undefined\<close> is an option, \<open>None\<close> standing for
  both; such a string is falsy when it is absent or empty. \<open>js_or\<close> is \<open>v || d\<close>, and
  \<open>interpolate\<close> is what a template literal prints for it. An array read out of range
  gives \<open>undefined\<close>.
\<close>

definition js_or :: "string option \<Rightarrow> string \<Rightarrow> string" where
  "js_or v d = (case v of None \<Rightarrow> d | Some s \<Rightarrow> if s = [] then d else s)"

definition interpolate :: "string option \<Rightarrow> string" where
  "interpolate v = (case v of None \<Rightarrow> ''undefined'' | Some s \<Rightarrow> s)"

definition js_index :: "'a list \<Rightarrow> int \<Rightarrow> 'a option" where
  "js_index xs i = (if 0 \<le> i \<and> i < int (length xs) then Some (xs ! nat i) else None)"

definition utf8_peso :: string where
  "utf8_peso = [CHR 0xE2, CHR 0x82, CHR 0xB1]"

definition utf8_bullet :: string where
  "utf8_bullet = [CHR 0xE2, CHR 0x80, CHR 0xA2]"

definition utf8_degree :: string where
  "utf8_degree = [CHR 0xC2, CHR 0xB0]"

subsection \<open>estimatePopulation\<close>

definition estimatePopulation :: "string option \<Rightarrow> rng \<Rightarrow> string option \<times> rng" where
  "estimatePopulation placeName g =
    (case placeName of
       None \<Rightarrow> (Some ''Unknown'', g)
     | Some pn \<Rightarrow>
         if pn = [] then (Some ''Unknown'', g)
         else
           let lower = toLowerCase pn in
           if js_includes lower ''metro manila'' \<or> js_includes lower ''manila''
             then (Some ''~13.5M'', g)
           else if js_includes lower ''quezon city'' then (Some ''~2.9M'', g)
           else if js_includes lower ''cebu'' then (Some ''~950K'', g)
           else if js_includes lower ''davao'' then (Some ''~1.6M'', g)
           else if js_includes lower ''camarines'' then (Some ''~580K'', g)
           else
             let estimates = [''50K-100K'', ''100K-250K'', ''250K-500K'', ''20K-50K''];
                 (r, g') = Math_random g
             in (js_index estimates \<lfloor>r * real (length estimates)\<rfloor>, g'))"

subsection \<open>analyzeLocation\<close>

text \<open>
  \<open>analyzeLocation\<close> builds the object \<open>locationData\<close> and prints it into a block of
  HTML. The model returns the object; its fields are evaluated in the order of the
  source, so the draws are taken by \<open>estimatePopulation\<close>, then \<open>identifyHazards\<close>, then
  \<open>calculateResilience\<close>. The field \<open>coordinates\<close>, a decimal rendering of the two
  numbers, is left out.
\<close>

record locationData =
  name :: "string option"
  population :: "string option"
  hazards :: "hazard list"
  infrastructure :: string
  resilience :: int

definition analyzeLocation ::
  "jsnum \<Rightarrow> jsnum \<Rightarrow> string option \<Rightarrow> rng \<Rightarrow> locationData \<times> rng" where
  "analyzeLocation lat lon placeName g =
    (let (p, g1) = estimatePopulation placeName g;
         (hs, g2) = identifyHazards lat lon g1;
         (res, g3) = calculateResilience lat lon g2
     in (\<lparr>name = placeName, population = p, hazards = hs,
          infrastructure = ''Moderate'', resilience = res\<rparr>, g3))"

section \<open>The chat\<close>

subsection \<open>State\<close>

text \<open>
  The globals and the parts of the page that the chat functions read and write:
  \<open>currentLocation\<close> and \<open>chatMessages\<close> are the globals of that name, the two input
  values are the \<open>value\<close> of the elements \<open>chatInput\<close> and \<open>modalChatInput\<close>, the two
  lists of \<open>messageDiv\<close> are the children of the elements \<open>chatMessages\<close> and
  \<open>modalChatMessages\<close>, and \<open>random\<close> is the state of \<open>Math.random\<close>. A message element
  keeps its class, the text of its avatar and the text of its paragraph.
  \<open>aiResponseCalls\<close> is not in the source: it counts the calls of \<open>generateAIResponse\<close>,
  so that a property can say that no call was made.
\<close>

record location =
  lat :: jsnum
  lon :: jsnum
  placeName :: "string option"

record chatEntry =
  type :: string
  content :: string

record messageDiv =
  className :: string
  avatar :: string
  bodyText :: string

record app_state =
  currentLocation :: "location option"
  chatMessages :: "chatEntry list"
  chatInputValue :: string
  modalChatInputValue :: string
  chatMessagesDiv :: "messageDiv list"
  modalChatMessagesDiv :: "messageDiv list"
  random :: rng
  aiResponseCalls :: nat

subsection \<open>The canned replies\<close>

definition populationReply :: "string \<Rightarrow> string \<Rightarrow> string" where
  "populationReply place estimate =
     ''Based on available data, the estimated population in '' @
     place @
     '' is approximately '' @
     estimate @
     ''. This is an estimate based on regional census data and recent '' @
     ''demographic trends.''"

definition populationNoLocation :: "string" where
  "populationNoLocation =
     ''To provide population data, please click on a specific location '' @
     ''on the map first.''"

definition hazardReply :: "string \<Rightarrow> string" where
  "hazardReply hazardList =
     ''The primary hazards identified for this location include: '' @
     hazardList @
     ''. I recommend implementing structural reinforcements, early '' @
     ''warning systems, and community preparedness programs. Would '' @
     ''you like detailed architectural solutions for specific hazards?''"

definition hazardNoLocation :: "string" where
  "hazardNoLocation =
     ''Please select a location on the map to analyze hazard risks.''"

definition solutionReply :: "string \<Rightarrow> string" where
  "solutionReply place =
     ''For '' @
     place @
     '', I recommend the following solutions:\<newline>\<newline>1. '' @
     ''**Flood Mitigation**: Install improved drainage systems with '' @
     ''2.5m deep channels, capacity for 150mm/hour rainfall\<newline>'' @
     ''\<newline>2. **Earthquake Resilience**: Retrofit critical buildings '' @
     ''with base isolation systems, estimated cost '' @
     utf8_peso @
     ''2.5M per structure\<newline>\<newline>3. **Evacuation Infrastructure**: '' @
     ''Establish 3 evacuation centers within 500m radius, capacity '' @
     ''500 people each\<newline>\<newline>4. **Early Warning System**: '' @
     ''Deploy IoT sensors for real-time monitoring, estimated setup '' @
     utf8_peso @
     ''850K\<newline>\<newline>Would you like 3D architectural mockups '' @
     ''for any of these solutions?''"

definition solutionNoLocation :: "string" where
  "solutionNoLocation =
     ''Please select a specific location to receive tailored solutions.''"

definition weatherReply :: "string" where
  "weatherReply =
     ''Current weather conditions:\<newline>- Temperature: 28'' @
     utf8_degree @
     ''C\<newline>- Humidity: 75%\<newline>- Wind: 15 km/h NE\<newline>'' @
     ''- Conditions: Partly cloudy\<newline>\<newline>7-Day Forecast: '' @
     ''Mixed conditions with possible rain showers on Feb 8-9. No '' @
     ''tropical cyclones currently threatening the area.\<newline>'' @
     ''\<newline>Would you like detailed impact analysis on local '' @
     ''infrastructure?''"

definition volcanoReply :: "string" where
  "volcanoReply =
     ''Active Volcano Status:\<newline>\<newline>**Mayon Volcano**: '' @
     ''Alert Level 2 (Increasing unrest)\<newline>- Distance from '' @
     ''you: ~245 km\<newline>- Last activity: Minor ash emission Feb '' @
     ''4, 2026\<newline>- Danger zone: 6km radius\<newline>\<newline>'' @
     ''**Taal Volcano**: Alert Level 1 (Abnormal)\<newline>- Distance '' @
     ''from you: ~180 km\<newline>- Last activity: Phreatic eruption '' @
     ''Jan 2026\<newline>- Danger zone: Crater area\<newline>\<newline>'' @
     ''Recommendations: Monitor PHIVOLCS bulletins, prepare evacuation '' @
     ''plans for communities within 10km.''"

definition earthquakeReply :: "string" where
  "earthquakeReply =
     ''Recent Seismic Activity:\<newline>\<newline>**Latest Event**: '' @
     ''Magnitude 4.2\<newline>- Location: 15km NE of Mindoro\<newline>'' @
     ''- Depth: 10km\<newline>- Time: Feb 6, 2026 08:15 AM\<newline>'' @
     ''- Intensity: III (Weak)\<newline>\<newline>**Fault Lines Nearby**:\<newline>'' @
     ''- West Valley Fault: 35km\<newline>- East Valley Fault: 42km\<newline>'' @
     ''- Marikina Fault: 28km\<newline>\<newline>Risk Assessment: '' @
     ''Moderate seismic risk. Buildings should comply with NSCP 2015 '' @
     ''earthquake-resistant standards.''"

definition defaultReply :: "string" where
  "defaultReply =
     ''I'm AI VISION, your intelligent spatial analysis assistant. '' @
     ''I can help you with:\<newline>\<newline>'' @
     utf8_bullet @
     '' Population and demographic data\<newline>'' @
     utf8_bullet @
     '' Hazard and risk assessments\<newline>'' @
     utf8_bullet @
     '' Infrastructure solutions and recommendations\<newline>'' @
     utf8_bullet @
     '' Weather forecasts and disaster monitoring\<newline>'' @
     utf8_bullet @
     '' Volcanic and seismic activity tracking\<newline>'' @
     utf8_bullet @
     '' 3D architectural planning\<newline>\<newline>Click anywhere '' @
     ''on the map or ask me a specific question about any location '' @
     ''in the Philippines!''"

definition imageAnalysis :: "string" where
  "imageAnalysis =
     ''Based on the image analysis, this appears to be an urban area '' @
     ''with mixed residential and commercial development. Structural '' @
     ''analysis indicates standard concrete construction. I've identified '' @
     ''potential drainage issues and recommend installing retention '' @
     ''basins. Coordinates estimated at approximately 14.5995'' @
     utf8_degree @
     ''N, 120.9842'' @
     utf8_degree @
     ''E (Metro Manila area). Would you like detailed infrastructure '' @
     ''recommendations?''"


subsection \<open>generateAIResponse\<close>

text \<open>
  The bodies of the three branches that read \<open>currentLocation\<close>, in the order of the
  source: the population branch, the hazard branch and the solution branch.
\<close>

definition populationBranch :: "app_state \<Rightarrow> string \<times> app_state" where
  "populationBranch st =
    (case currentLocation st of
       Some loc \<Rightarrow>
         let place = js_or (placeName loc) ''this area'';
             (estimate, g') = estimatePopulation (placeName loc) (random st)
         in (populationReply place (interpolate estimate), st\<lparr>random := g'\<rparr>)
     | None \<Rightarrow> (populationNoLocation, st))"

definition hazardBranch :: "app_state \<Rightarrow> string \<times> app_state" where
  "hazardBranch st =
    (case currentLocation st of
       Some loc \<Rightarrow>
         let (hazards, g') = identifyHazards (lat loc) (lon loc) (random st);
             hazardList =
               join '', '' (map (\<lambda>h. hazard.name h @ '' ('' @ level h @ '' risk)'') hazards)
         in (hazardReply hazardList, st\<lparr>random := g'\<rparr>)
     | None \<Rightarrow> (hazardNoLocation, st))"

definition solutionBranch :: "app_state \<Rightarrow> string \<times> app_state" where
  "solutionBranch st =
    (case currentLocation st of
       Some loc \<Rightarrow> (solutionReply (js_or (placeName loc) ''this location''), st)
     | None \<Rightarrow> (solutionNoLocation, st))"

definition generateAIResponse :: "string \<Rightarrow> app_state \<Rightarrow> string \<times> app_state" where
  "generateAIResponse userMessage st0 =
    (let st = st0\<lparr>aiResponseCalls := Suc (aiResponseCalls st0)\<rparr>;
         lowerMessage = toLowerCase userMessage
     in
       if js_includes lowerMessage ''population'' \<or> js_includes lowerMessage ''people''
          \<or> js_includes lowerMessage ''ppl''
       then populationBranch st
       else if js_includes lowerMessage ''hazard'' \<or> js_includes lowerMessage ''risk''
          \<or> js_includes lowerMessage ''danger'' \<or> js_includes lowerMessage ''safe''
       then hazardBranch st
       else if js_includes lowerMessage ''solution'' \<or> js_includes lowerMessage ''fix''
          \<or> js_includes lowerMessage ''improve'' \<or> js_includes lowerMessage ''help''
       then solutionBranch st
       else if js_includes lowerMessage ''weather'' \<or> js_includes lowerMessage ''forecast''
          \<or> js_includes lowerMessage ''rain'' \<or> js_includes lowerMessage ''typhoon''
       then (weatherReply, st)
       else if js_includes lowerMessage ''volcano'' \<or> js_includes lowerMessage ''eruption''
          \<or> js_includes lowerMessage ''mayon'' \<or> js_includes lowerMessage ''taal''
       then (volcanoReply, st)
       else if js_includes lowerMessage ''earthquake'' \<or> js_includes lowerMessage ''seismic''
          \<or> js_includes lowerMessage ''quake''
       then (earthquakeReply, st)
       else (defaultReply, st))"

subsection \<open>addChatMessage and sendChatMessage\<close>

definition addChatMessage :: "string \<Rightarrow> string \<Rightarrow> bool \<Rightarrow> app_state \<Rightarrow> app_state" where
  "addChatMessage ty body isModal st =
    (let messageDiv =
           \<lparr>className = (if ty = ''ai'' then ''ai-message'' else ''user-message''),
            avatar = (if ty = ''ai'' then ''AI'' else ''U''),
            bodyText = body\<rparr>;
         st = (if isModal
               then st\<lparr>modalChatMessagesDiv := modalChatMessagesDiv st @ [messageDiv]\<rparr>
               else st\<lparr>chatMessagesDiv := chatMessagesDiv st @ [messageDiv]\<rparr>)
     in st\<lparr>chatMessages := chatMessages st @ [\<lparr>type = ty, content = body\<rparr>]\<rparr>)"

definition inputValue :: "bool \<Rightarrow> app_state \<Rightarrow> string" where
  "inputValue isModal st = (if isModal then modalChatInputValue st else chatInputValue st)"

definition sendChatMessage :: "bool \<Rightarrow> app_state \<Rightarrow> app_state" where
  "sendChatMessage isModal st =
    (let message = trim (inputValue isModal st)
     in if message = [] then st
        else
          let st = addChatMessage ''user'' message isModal st;
              st = (if isModal then st\<lparr>modalChatInputValue := []\<rparr>
                    else st\<lparr>chatInputValue := []\<rparr>);
              (aiResponse, st) = generateAIResponse message st
          in addChatMessage ''ai'' aiResponse isModal st)"

text \<open>
  The callback that \<open>handleImageUpload\<close> schedules two seconds after an image was
  read: the fixed analysis text is added as a message of the assistant. (The element
  that shows the image itself is put on the page only; it is not pushed on
  \<open>chatMessages\<close>.)
\<close>

definition imageAnalysisDone :: "bool \<Rightarrow> app_state \<Rightarrow> app_state" where
  "imageAnalysisDone isModal st = addChatMessage ''ai'' imageAnalysis isModal st"

subsection \<open>The states of a page session\<close>

text \<open>
  At page load \<open>chatMessages\<close> is the empty array. The array is written in one place,
  the \<open>push\<close> of \<open>addChatMessage\<close>, and \<open>addChatMessage\<close> is called by
  \<open>sendChatMessage\<close> and by the image callback; whatever else runs (typing, choosing a
  location, opening the modal) leaves the array as it is.
\<close>

inductive reachable :: "app_state \<Rightarrow> bool" where
  page_load: "chatMessages st = [] \<Longrightarrow> reachable st"
| send: "reachable st \<Longrightarrow> reachable (sendChatMessage isModal st)"
| image: "reachable st \<Longrightarrow> reachable (imageAnalysisDone isModal st)"
| other: "reachable st \<Longrightarrow> chatMessages st' = chatMessages st \<Longrightarrow> reachable st'"

text \<open>
  The roles of the specification's message record: the code tags a message of the
  user \<open>user\<close> and a message of the assistant \<open>ai\<close>.
\<close>

datatype role = User | Assistant

definition role_of :: "chatEntry \<Rightarrow> role option" where
  "role_of e =
    (if type e = ''user'' then Some User
     else if type e = ''ai'' then Some Assistant
     else None)"

section \<open>Properties\<close>

lemma foldl_penalty:
  "foldl (\<lambda>score h. score - spec_penalty h) s hs =
     s - int (length (filter (\<lambda>h. level h = ''high'') hs)) * 20
       - int (length (filter (\<lambda>h. level h = ''moderate'') hs)) * 10"
  by (induction hs arbitrary: s) (simp_all add: spec_penalty_def)

subsection \<open>Helper facts on hazards and scores\<close>

lemma identifyHazards_eq:
  "identifyHazards la lo g =
    ([\<lparr>hazard.name = ''Earthquake'',
       level = (if js_lt (Math_abs (js_sub la (Fin 14.5995))) (Fin 2)
                   \<or> js_lt (Math_abs (js_sub la (Fin 10.3157))) (Fin 2)
                then ''high'' else ''moderate'')\<rparr>,
      \<lparr>hazard.name = ''Typhoon'',
       level = (if js_gt lo (Fin 121) \<and> js_lt lo (Fin 126) then ''high'' else ''moderate'')\<rparr>,
      \<lparr>hazard.name = ''Flooding'',
       level = (if js_lt la (Fin 15) \<and> js_gt la (Fin 10) then ''moderate'' else ''low'')\<rparr>]
     @ (if shd g > 0.5 then [\<lparr>hazard.name = ''Tsunami'', level = ''moderate''\<rparr>] else [])
     @ (if js_gt la (Fin 16) \<or> (js_gt la (Fin 6) \<and> js_lt la (Fin 10))
        then [\<lparr>hazard.name = ''Landslide'', level = ''moderate''\<rparr>] else []),
     stl g)"
  by (simp add: identifyHazards_def Math_random_def Let_def)

lemma calculateResilience_eq:
  "calculateResilience la lo g =
     (scoreHazards (fst (identifyHazards la lo g)), snd (identifyHazards la lo g))"
  by (simp add: calculateResilience_def split_beta)

lemma scoreHazards_spec: "scoreHazards hs = spec_ResilienceScorer hs"
  unfolding scoreHazards_def spec_ResilienceScorer_def foldl_penalty Let_def ..

lemma scoreHazards_bounds: "30 \<le> scoreHazards hs \<and> scoreHazards hs \<le> 100"
  unfolding scoreHazards_def Let_def by linarith

lemma manila_hazards:
  "fst (identifyHazards (Fin 14.5995) (Fin 120.9842) g) =
     [\<lparr>hazard.name = ''Earthquake'', level = ''high''\<rparr>,
      \<lparr>hazard.name = ''Typhoon'', level = ''moderate''\<rparr>,
      \<lparr>hazard.name = ''Flooding'', level = ''moderate''\<rparr>]
     @ (if shd g > 0.5 then [\<lparr>hazard.name = ''Tsunami'', level = ''moderate''\<rparr>] else [])"
  by (simp add: identifyHazards_eq js_gt_def)

lemma score_manila_dry:
  "scoreHazards
     [\<lparr>hazard.name = ''Earthquake'', level = ''high''\<rparr>,
      \<lparr>hazard.name = ''Typhoon'', level = ''moderate''\<rparr>,
      \<lparr>hazard.name = ''Flooding'', level = ''moderate''\<rparr>] = 60"
  by (simp add: scoreHazards_def Let_def)

lemma score_manila_tsunami:
  "scoreHazards
     [\<lparr>hazard.name = ''Earthquake'', level = ''high''\<rparr>,
      \<lparr>hazard.name = ''Typhoon'', level = ''moderate''\<rparr>,
      \<lparr>hazard.name = ''Flooding'', level = ''moderate''\<rparr>,
      \<lparr>hazard.name = ''Tsunami'', level = ''moderate''\<rparr>] = 50"
  by (simp add: scoreHazards_def Let_def)

subsection \<open>The resilience score\<close>

text \<open>
  C1. For every hazard list, the score that \<open>calculateResilience\<close> computes from it is
  the one the specification describes: 100, less 20 for each hazard of level high and
  10 for each of level moderate, clamped to the interval from 30 to 100. Hence, for
  every coordinate and every state of the random source, the score returned is the
  specified score of the hazards identified there and lies between 30 and 100.
\<close>

theorem C1_resilience_score:
  "scoreHazards hs = spec_ResilienceScorer hs
   \<and> fst (calculateResilience la lo g) = spec_ResilienceScorer (fst (identifyHazards la lo g))
   \<and> 30 \<le> fst (calculateResilience la lo g)
   \<and> fst (calculateResilience la lo g) \<le> 100"
  using scoreHazards_bounds [of "fst (identifyHazards la lo g)"]
  by (simp add: calculateResilience_eq scoreHazards_spec)

subsection \<open>The hazards at the reference coordinate of Metro Manila\<close>

text \<open>
  C2, as stated, fails. At latitude 14.5995 and longitude 120.9842, with a draw that
  does not pass the Tsunami gate, the levels of Earthquake, Typhoon and Flooding are
  high, moderate and moderate (the longitude is below 121, so Typhoon is not high),
  and the score is 60, which is outside the range from 20 to 50.
\<close>

theorem C2_manila_counterexample:
  "map level (take 3 (fst (identifyHazards (Fin 14.5995) (Fin 120.9842) (sconst 0)))) =
     [''high'', ''moderate'', ''moderate'']
   \<and> map level (take 3 (fst (identifyHazards (Fin 14.5995) (Fin 120.9842) (sconst 0)))) \<noteq>
     [''high'', ''high'', ''moderate'']
   \<and> fst (calculateResilience (Fin 14.5995) (Fin 120.9842) (sconst 0)) = 60
   \<and> \<not> fst (calculateResilience (Fin 14.5995) (Fin 120.9842) (sconst 0)) \<le> 50"
proof -
  have h: "fst (identifyHazards (Fin 14.5995) (Fin 120.9842) (sconst 0)) =
     [\<lparr>hazard.name = ''Earthquake'', level = ''high''\<rparr>,
      \<lparr>hazard.name = ''Typhoon'', level = ''moderate''\<rparr>,
      \<lparr>hazard.name = ''Flooding'', level = ''moderate''\<rparr>]"
    unfolding manila_hazards by simp
  have s: "fst (calculateResilience (Fin 14.5995) (Fin 120.9842) (sconst 0)) = 60"
    by (simp only: calculateResilience_eq fst_conv h score_manila_dry)
  show ?thesis
    unfolding s h by simp
qed

text \<open>
  C2, amended. At latitude 14.5995 and longitude 120.9842, for every state of the
  random source, the first three hazards are Earthquake at level high, Typhoon at level
  moderate and Flooding at level moderate; these three alone score 100 - 20 - 10 - 10 =
  60; the score returned is 50 when the draw passes the Tsunami gate and 60 when it
  does not; and no Landslide entry is emitted.
\<close>

theorem C2_manila:
  "map (\<lambda>h. (hazard.name h, level h))
       (take 3 (fst (identifyHazards (Fin 14.5995) (Fin 120.9842) g))) =
     [(''Earthquake'', ''high''), (''Typhoon'', ''moderate''), (''Flooding'', ''moderate'')]
   \<and> scoreHazards (take 3 (fst (identifyHazards (Fin 14.5995) (Fin 120.9842) g))) = 60
   \<and> fst (calculateResilience (Fin 14.5995) (Fin 120.9842) g) = (if shd g > 0.5 then 50 else 60)
   \<and> ''Landslide'' \<notin> set (map hazard.name (fst (identifyHazards (Fin 14.5995) (Fin 120.9842) g)))"
proof -
  have t: "take 3 (fst (identifyHazards (Fin 14.5995) (Fin 120.9842) g)) =
     [\<lparr>hazard.name = ''Earthquake'', level = ''high''\<rparr>,
      \<lparr>hazard.name = ''Typhoon'', level = ''moderate''\<rparr>,
      \<lparr>hazard.name = ''Flooding'', level = ''moderate''\<rparr>]"
    unfolding manila_hazards by simp
  have s: "fst (calculateResilience (Fin 14.5995) (Fin 120.9842) g) =
           (if shd g > 0.5 then 50 else 60)"
  proof (cases "shd g > 0.5")
    case True
    then show ?thesis
      by (simp only: calculateResilience_eq fst_conv manila_hazards if_True append.simps
          score_manila_tsunami)
  next
    case False
    then show ?thesis
      by (simp only: calculateResilience_eq fst_conv manila_hazards if_False append_Nil2
          score_manila_dry)
  qed
  have l: "''Landslide'' \<notin> set (map hazard.name (fst (identifyHazards (Fin 14.5995) (Fin 120.9842) g)))"
    unfolding manila_hazards by auto
  show ?thesis
    unfolding t s score_manila_dry using l by simp
qed

subsection \<open>The entries of a hazard assessment\<close>

text \<open>
  C3. For every coordinate and every state of the random source, the list that
  \<open>identifyHazards\<close> returns starts with the entries Earthquake, Typhoon and Flooding,
  in that order; every Tsunami entry in it has level moderate; it has a Landslide entry
  exactly when the latitude is greater than 16, or greater than 6 and less than 10;
  and every Landslide entry in it has level moderate.
\<close>

theorem C3_hazard_entries:
  "map hazard.name (take 3 (fst (identifyHazards la lo g))) =
     [''Earthquake'', ''Typhoon'', ''Flooding'']
   \<and> (\<forall>h \<in> set (fst (identifyHazards la lo g)).
         hazard.name h = ''Tsunami'' \<longrightarrow> level h = ''moderate'')
   \<and> ((\<exists>h \<in> set (fst (identifyHazards la lo g)). hazard.name h = ''Landslide'')
        \<longleftrightarrow> (js_gt la (Fin 16) \<or> (js_gt la (Fin 6) \<and> js_lt la (Fin 10))))
   \<and> (\<forall>h \<in> set (fst (identifyHazards la lo g)).
         hazard.name h = ''Landslide'' \<longrightarrow> level h = ''moderate'')"
  by (auto simp add: identifyHazards_eq)

theorem C3_hazard_entries_witness:
  "\<lparr>hazard.name = ''Tsunami'', level = ''moderate''\<rparr>
      \<in> set (fst (identifyHazards (Fin 17) (Fin 122) (0.7 ## sconst 0)))
   \<and> \<lparr>hazard.name = ''Landslide'', level = ''moderate''\<rparr>
      \<in> set (fst (identifyHazards (Fin 17) (Fin 122) (0.7 ## sconst 0)))
   \<and> js_gt (Fin 17) (Fin 16)
   \<and> map hazard.name (take 3 (fst (identifyHazards (Fin 17) (Fin 122) (0.7 ## sconst 0)))) =
     [''Earthquake'', ''Typhoon'', ''Flooding'']"
  using C3_hazard_entries [of "Fin 17" "Fin 122" "0.7 ## sconst 0"]
  by (simp add: identifyHazards_def Math_random_def Let_def js_gt_def)

subsection \<open>Helper facts on strings\<close>

lemma toLowerCase_append: "toLowerCase (a @ b) = toLowerCase a @ toLowerCase b"
  by (simp add: toLowerCase_def)

lemma toLowerCase_length: "length (toLowerCase s) = length s"
  by (simp add: toLowerCase_def)

lemma startsWith_iff: "startsWith s pat \<longleftrightarrow> (\<exists>post. s = pat @ post)"
  by (induction s pat rule: startsWith.induct) auto

lemma js_includes_iff: "js_includes s pat \<longleftrightarrow> (\<exists>pre post. s = pre @ pat @ post)"
proof (induction s)
  case Nil
  then show ?case by auto
next
  case (Cons c cs)
  show ?case
  proof
    assume "js_includes (c # cs) pat"
    then consider "startsWith (c # cs) pat" | "js_includes cs pat" by auto
    then show "\<exists>pre post. c # cs = pre @ pat @ post"
    proof cases
      case 1
      then obtain post where "c # cs = pat @ post" by (auto simp: startsWith_iff)
      then have "c # cs = [] @ pat @ post" by simp
      then show ?thesis by blast
    next
      case 2
      then obtain pre post where "cs = pre @ pat @ post" using Cons.IH by auto
      then have "c # cs = (c # pre) @ pat @ post" by simp
      then show ?thesis by blast
    qed
  next
    assume "\<exists>pre post. c # cs = pre @ pat @ post"
    then obtain pre post where e: "c # cs = pre @ pat @ post" by blast
    show "js_includes (c # cs) pat"
    proof (cases pre)
      case Nil
      with e have "startsWith (c # cs) pat" by (auto simp: startsWith_iff)
      then show ?thesis by simp
    next
      case (Cons p pre')
      with e have "cs = pre' @ pat @ post" by simp
      then have "js_includes cs pat" using Cons.IH by blast
      then show ?thesis by simp
    qed
  qed
qed

lemma includes_lower:
  assumes "s = pre @ mid @ post" and "toLowerCase mid = k"
  shows "js_includes (toLowerCase s) k"
proof -
  have "toLowerCase s = toLowerCase pre @ k @ toLowerCase post"
    using assms by (simp add: toLowerCase_append)
  then show ?thesis unfolding js_includes_iff by blast
qed

lemma lower_literals:
  "toLowerCase ''Metro Manila'' = ''metro manila''"
  "toLowerCase ''Manila'' = ''manila''"
  "toLowerCase ''Population'' = ''population''"
  "toLowerCase ''risk'' = ''risk''"
  by (simp_all add: toLowerCase_def lower_char_def)

subsection \<open>The population estimate\<close>

lemma estimatePopulation_manila:
  assumes "pn \<noteq> []"
    and "js_includes (toLowerCase pn) ''metro manila'' \<or> js_includes (toLowerCase pn) ''manila''"
  shows "estimatePopulation (Some pn) g = (Some ''~13.5M'', g)"
  using assms by (simp add: estimatePopulation_def Let_def)

lemma estimatePopulation_substring:
  assumes "pn = pre @ mid @ post" and "toLowerCase mid = k"
    and "k = ''metro manila'' \<or> k = ''manila''"
  shows "estimatePopulation (Some pn) g = (Some ''~13.5M'', g)"
proof -
  have "length mid = length k"
    using assms(2) toLowerCase_length [of mid] by simp
  then have "mid \<noteq> []" using assms(3) by auto
  then have "pn \<noteq> []" using assms(1) by simp
  moreover have "js_includes (toLowerCase pn) k"
    using assms(1,2) by (rule includes_lower)
  ultimately show ?thesis using assms(3) by (auto simp: estimatePopulation_manila)
qed

text \<open>
  C4. For every place name that contains the text Metro Manila in any mix of upper and
  lower case (a part of the name whose lower-case form is \<open>metro manila\<close>),
  \<open>estimatePopulation\<close> returns the bucket \<open>~13.5M\<close>, whatever the state of the random
  source, and leaves that state as it was: no draw is taken.
\<close>

theorem C4_metro_manila:
  assumes "pn = pre @ mid @ post" and "toLowerCase mid = ''metro manila''"
  shows "estimatePopulation (Some pn) g = (Some ''~13.5M'', g)"
  using assms by (rule estimatePopulation_substring) simp

theorem C4_metro_manila_witness:
  "''Metro Manila, Philippines'' = [] @ ''Metro Manila'' @ '', Philippines''
   \<and> toLowerCase ''Metro Manila'' = ''metro manila''
   \<and> estimatePopulation (Some ''Metro Manila, Philippines'') (sconst 0) = (Some ''~13.5M'', sconst 0)"
proof -
  have a: "''Metro Manila, Philippines'' = [] @ ''Metro Manila'' @ '', Philippines''" by simp
  note b = lower_literals(1)
  show ?thesis
    by (intro conjI a b C4_metro_manila [OF a b])
qed

text \<open>
  C9. The bucket \<open>~13.5M\<close> is returned, with no draw taken, for every place name that
  contains the text Manila alone in any mix of upper and lower case; the full name
  Metro Manila is not needed. The name Manila Bay is such a name: it does not contain
  Metro Manila, and its estimate is \<open>~13.5M\<close> for every state of the random source.
\<close>

theorem C9_manila_alone:
  assumes "pn = pre @ mid @ post" and "toLowerCase mid = ''manila''"
  shows "estimatePopulation (Some pn) g = (Some ''~13.5M'', g)
         \<and> \<not> js_includes (toLowerCase ''Manila Bay'') ''metro manila''
         \<and> estimatePopulation (Some ''Manila Bay'') g = (Some ''~13.5M'', g)"
proof -
  have general: "estimatePopulation (Some pn) g = (Some ''~13.5M'', g)"
    using assms by (rule estimatePopulation_substring) simp
  have n: "\<not> js_includes (toLowerCase ''Manila Bay'') ''metro manila''"
    by (simp add: toLowerCase_def lower_char_def)
  have "''Manila Bay'' = [] @ ''Manila'' @ '' Bay''" by simp
  then have bay: "estimatePopulation (Some ''Manila Bay'') g = (Some ''~13.5M'', g)"
    using lower_literals(2) by (rule estimatePopulation_substring) simp
  show ?thesis
    by (intro conjI general n bay)
qed

theorem C9_manila_alone_witness:
  "''Port of Manila'' = ''Port of '' @ ''Manila'' @ []
   \<and> toLowerCase ''Manila'' = ''manila''
   \<and> estimatePopulation (Some ''Port of Manila'') (sconst 0) = (Some ''~13.5M'', sconst 0)"
proof -
  have a: "''Port of Manila'' = ''Port of '' @ ''Manila'' @ []" by simp
  note b = lower_literals(2)
  show ?thesis
    by (intro conjI a b conjunct1 [OF C9_manila_alone [OF a b]])
qed

subsection \<open>The report of analyzeLocation\<close>

lemma score_shape:
  assumes "\<not> (f \<and> l)"
  shows "scoreHazards
     ([\<lparr>hazard.name = ''Earthquake'', level = (if e then ''high'' else ''moderate'')\<rparr>,
       \<lparr>hazard.name = ''Typhoon'', level = (if t then ''high'' else ''moderate'')\<rparr>,
       \<lparr>hazard.name = ''Flooding'', level = (if f then ''moderate'' else ''low'')\<rparr>]
      @ (if ts then [\<lparr>hazard.name = ''Tsunami'', level = ''moderate''\<rparr>] else [])
      @ (if l then [\<lparr>hazard.name = ''Landslide'', level = ''moderate''\<rparr>] else []))
    = 100 - (if e then 20 else 10) - (if t then 20 else 10) - (if f then 10 else 0)
          - (if ts then 10 else 0) - (if l then 10 else 0)"
  using assms
  by (cases e; cases t; cases f; cases ts; cases l; simp add: scoreHazards_def Let_def)

lemma flooding_landslide_exclusive:
  "\<not> ((js_lt la (Fin 15) \<and> js_gt la (Fin 10))
      \<and> (js_gt la (Fin 16) \<or> (js_gt la (Fin 6) \<and> js_lt la (Fin 10))))"
  by (cases la) (auto simp: js_gt_def)

lemma score_gate:
  "scoreHazards (fst (identifyHazards la lo g)) =
     scoreHazards (fst (identifyHazards la lo (sconst 0))) - (if shd g > 0.5 then 10 else 0)"
  unfolding identifyHazards_eq fst_conv
  by (simp only: score_shape [OF flooding_landslide_exclusive]) simp

lemma snd_identifyHazards: "snd (identifyHazards la lo g) = stl g"
  by (simp add: identifyHazards_eq)

lemma analyzeLocation_fields:
  "hazards (fst (analyzeLocation la lo pn g)) =
     fst (identifyHazards la lo (snd (estimatePopulation pn g)))"
  "resilience (fst (analyzeLocation la lo pn g)) =
     fst (calculateResilience la lo (stl (snd (estimatePopulation pn g))))"
  by (simp_all add: analyzeLocation_def split_beta snd_identifyHazards)

text \<open>
  C10. In the report of \<open>analyzeLocation\<close> the field \<open>hazards\<close> is the list of one call
  of \<open>identifyHazards\<close> and the field \<open>resilience\<close> is the score of a second call, made
  by \<open>calculateResilience\<close> on the next draw. For every coordinate, place name and state
  of the random source, the reported score differs from the score of the reported
  hazards exactly when one of the two draws passes the Tsunami gate (is greater than
  0.5) and the other does not. At latitude 14.5995 and longitude 120.9842, with the
  draws 0.7 and 0.2, the report holds a Tsunami entry, its hazards score 50, and its
  resilience is 60.
\<close>

theorem C10_report_two_draws:
  "hazards (fst (analyzeLocation la lo pn g)) =
     fst (identifyHazards la lo (snd (estimatePopulation pn g)))
   \<and> resilience (fst (analyzeLocation la lo pn g)) =
     fst (calculateResilience la lo (stl (snd (estimatePopulation pn g))))
   \<and> ((resilience (fst (analyzeLocation la lo pn g)) \<noteq>
         scoreHazards (hazards (fst (analyzeLocation la lo pn g))))
        = ((shd (snd (estimatePopulation pn g)) > 0.5) \<noteq>
           (shd (stl (snd (estimatePopulation pn g))) > 0.5)))
   \<and> resilience (fst (analyzeLocation (Fin 14.5995) (Fin 120.9842) (Some ''Manila'')
          (0.7 ## 0.2 ## sconst 0))) = 60
   \<and> scoreHazards (hazards (fst (analyzeLocation (Fin 14.5995) (Fin 120.9842) (Some ''Manila'')
          (0.7 ## 0.2 ## sconst 0)))) = 50"
proof -
  let ?g1 = "snd (estimatePopulation pn g)"
  have s1: "scoreHazards (fst (identifyHazards la lo ?g1)) =
      scoreHazards (fst (identifyHazards la lo (sconst 0))) - (if shd ?g1 > 0.5 then 10 else 0)"
    by (rule score_gate)
  have s2: "scoreHazards (fst (identifyHazards la lo (stl ?g1))) =
      scoreHazards (fst (identifyHazards la lo (sconst 0)))
        - (if shd (stl ?g1) > 0.5 then 10 else 0)"
    by (rule score_gate)
  have iff: "(resilience (fst (analyzeLocation la lo pn g)) \<noteq>
         scoreHazards (hazards (fst (analyzeLocation la lo pn g))))
        = ((shd ?g1 > 0.5) \<noteq> (shd (stl ?g1) > 0.5))"
    unfolding analyzeLocation_fields calculateResilience_eq fst_conv s1 s2 by auto
  have p: "snd (estimatePopulation (Some ''Manila'') (0.7 ## 0.2 ## sconst 0)) =
             0.7 ## 0.2 ## sconst 0"
    by (simp add: estimatePopulation_def Let_def toLowerCase_def lower_char_def)
  have r: "resilience (fst (analyzeLocation (Fin 14.5995) (Fin 120.9842) (Some ''Manila'')
          (0.7 ## 0.2 ## sconst 0))) = 60"
    unfolding analyzeLocation_fields p calculateResilience_eq fst_conv manila_hazards
    by (simp add: score_manila_dry)
  have h: "scoreHazards (hazards (fst (analyzeLocation (Fin 14.5995) (Fin 120.9842) (Some ''Manila'')
          (0.7 ## 0.2 ## sconst 0)))) = 50"
    unfolding analyzeLocation_fields p manila_hazards
    by (simp add: score_manila_tsunami)
  show ?thesis
    by (intro conjI analyzeLocation_fields iff r h)
qed

subsection \<open>The order of the reply categories\<close>

lemma reply_heads:
  "take 2 (populationReply place estimate) = ''Ba''"
  "take 2 populationNoLocation = ''To''"
  "take 2 (hazardReply hazardList) = ''Th''"
  "take 2 hazardNoLocation = ''Pl''"
  by (simp_all add: populationReply_def populationNoLocation_def hazardReply_def
      hazardNoLocation_def)

lemma populationBranch_not_hazard:
  "fst (populationBranch st) \<noteq> hazardReply hazardList"
  "fst (populationBranch st) \<noteq> hazardNoLocation"
proof -
  have "take 2 (fst (populationBranch st)) = ''Ba'' \<or> take 2 (fst (populationBranch st)) = ''To''"
    by (simp add: populationBranch_def Let_def split_beta reply_heads split: option.split)
  then show "fst (populationBranch st) \<noteq> hazardReply hazardList"
    and "fst (populationBranch st) \<noteq> hazardNoLocation"
    using reply_heads(3) [of hazardList] reply_heads(4) by auto
qed

text \<open>
  C5. For every message that contains one of the population keywords (population,
  people, ppl) and one of the hazard keywords (hazard, risk, danger, safe), in any mix
  of upper and lower case, \<open>generateAIResponse\<close> takes the population branch, which is
  tested first: with no current location the reply is the request to click on the map,
  otherwise it is the population text with the place name and the estimate filled in.
  The reply is none of the replies of the hazard branch.
\<close>

theorem C5_population_first:
  assumes "userMessage = p1 @ k1 @ q1"
    and "toLowerCase k1 \<in> {''population'', ''people'', ''ppl''}"
    and "userMessage = p2 @ k2 @ q2"
    and "toLowerCase k2 \<in> {''hazard'', ''risk'', ''danger'', ''safe''}"
  shows "generateAIResponse userMessage st =
           populationBranch (st\<lparr>aiResponseCalls := Suc (aiResponseCalls st)\<rparr>)
         \<and> fst (generateAIResponse userMessage st) =
           (case currentLocation st of
              None \<Rightarrow> populationNoLocation
            | Some loc \<Rightarrow>
                populationReply (js_or (placeName loc) ''this area'')
                  (interpolate (fst (estimatePopulation (placeName loc) (random st)))))
         \<and> (\<forall>hazardList. fst (generateAIResponse userMessage st) \<noteq> hazardReply hazardList)
         \<and> fst (generateAIResponse userMessage st) \<noteq> hazardNoLocation"
proof -
  have inc: "js_includes (toLowerCase userMessage) (toLowerCase k1)"
    using assms(1) by (rule includes_lower) simp
  have pop: "js_includes (toLowerCase userMessage) ''population''
             \<or> js_includes (toLowerCase userMessage) ''people''
             \<or> js_includes (toLowerCase userMessage) ''ppl''"
    using inc assms(2) by auto
  have g: "generateAIResponse userMessage st =
             populationBranch (st\<lparr>aiResponseCalls := Suc (aiResponseCalls st)\<rparr>)"
    unfolding generateAIResponse_def Let_def by (simp only: pop if_True)
  have r: "fst (populationBranch (st\<lparr>aiResponseCalls := Suc (aiResponseCalls st)\<rparr>)) =
           (case currentLocation st of
              None \<Rightarrow> populationNoLocation
            | Some loc \<Rightarrow>
                populationReply (js_or (placeName loc) ''this area'')
                  (interpolate (fst (estimatePopulation (placeName loc) (random st)))))"
    by (simp add: populationBranch_def Let_def split_beta split: option.split)
  have c2: "fst (generateAIResponse userMessage st) =
           (case currentLocation st of
              None \<Rightarrow> populationNoLocation
            | Some loc \<Rightarrow>
                populationReply (js_or (placeName loc) ''this area'')
                  (interpolate (fst (estimatePopulation (placeName loc) (random st)))))"
    unfolding g by (rule r)
  have c3: "\<forall>hazardList. fst (generateAIResponse userMessage st) \<noteq> hazardReply hazardList"
    unfolding g using populationBranch_not_hazard(1) by blast
  have c4: "fst (generateAIResponse userMessage st) \<noteq> hazardNoLocation"
    unfolding g by (rule populationBranch_not_hazard(2))
  show ?thesis
    by (intro conjI g c2 c3 c4)
qed

theorem C5_population_first_witness:
  "''Population risk?'' = [] @ ''Population'' @ '' risk?''
   \<and> toLowerCase ''Population'' = ''population''
   \<and> ''Population risk?'' = ''Population '' @ ''risk'' @ ''?''
   \<and> toLowerCase ''risk'' = ''risk''
   \<and> fst (generateAIResponse ''Population risk?''
       \<lparr>currentLocation = None, chatMessages = [], chatInputValue = [],
        modalChatInputValue = [], chatMessagesDiv = [], modalChatMessagesDiv = [],
        random = sconst 0, aiResponseCalls = 0\<rparr>) = populationNoLocation"
proof -
  let ?s = "\<lparr>currentLocation = None, chatMessages = [], chatInputValue = [],
        modalChatInputValue = [], chatMessagesDiv = [], modalChatMessagesDiv = [],
        random = sconst 0, aiResponseCalls = 0\<rparr>"
  have a: "''Population risk?'' = [] @ ''Population'' @ '' risk?''" by simp
  note e1 = lower_literals(3)
  have c: "''Population risk?'' = ''Population '' @ ''risk'' @ ''?''" by simp
  note e2 = lower_literals(4)
  have b: "toLowerCase ''Population'' \<in> {''population'', ''people'', ''ppl''}"
    unfolding e1 by simp
  have d: "toLowerCase ''risk'' \<in> {''hazard'', ''risk'', ''danger'', ''safe''}"
    unfolding e2 by simp
  have n: "currentLocation ?s = None" by simp
  have "fst (generateAIResponse ''Population risk?'' ?s) =
          (case currentLocation ?s of
              None \<Rightarrow> populationNoLocation
            | Some loc \<Rightarrow>
                populationReply (js_or (placeName loc) ''this area'')
                  (interpolate (fst (estimatePopulation (placeName loc) (random ?s)))))"
    using C5_population_first [OF a b c d, where st = ?s] by (rule conjunct1 [OF conjunct2])
  then have r: "fst (generateAIResponse ''Population risk?'' ?s) = populationNoLocation"
    unfolding n by (simp only: option.case)
  show ?thesis
    by (intro conjI a e1 c e2 r)
qed

subsection \<open>Helper facts on the chat log\<close>

lemma chatMessages_branches:
  "chatMessages (snd (populationBranch st)) = chatMessages st"
  "chatMessages (snd (hazardBranch st)) = chatMessages st"
  "chatMessages (snd (solutionBranch st)) = chatMessages st"
  "aiResponseCalls (snd (populationBranch st)) = aiResponseCalls st"
  "aiResponseCalls (snd (hazardBranch st)) = aiResponseCalls st"
  "aiResponseCalls (snd (solutionBranch st)) = aiResponseCalls st"
  by (simp_all add: populationBranch_def hazardBranch_def solutionBranch_def
      Let_def split_beta split: option.split)

lemma chatMessages_generateAIResponse:
  "chatMessages (snd (generateAIResponse userMessage st)) = chatMessages st"
  unfolding generateAIResponse_def Let_def
  by (simp add: if_distrib [where f = "\<lambda>x. chatMessages (snd x)"] chatMessages_branches
      cong: if_cong split del: if_split)

lemma aiResponseCalls_generateAIResponse:
  "aiResponseCalls (snd (generateAIResponse userMessage st)) = Suc (aiResponseCalls st)"
  unfolding generateAIResponse_def Let_def
  by (simp add: if_distrib [where f = "\<lambda>x. aiResponseCalls (snd x)"] chatMessages_branches
      cong: if_cong split del: if_split)

lemma chatMessages_addChatMessage:
  "chatMessages (addChatMessage ty body isModal st) =
     chatMessages st @ [\<lparr>type = ty, content = body\<rparr>]"
  by (simp add: addChatMessage_def Let_def)

lemma aiResponseCalls_addChatMessage:
  "aiResponseCalls (addChatMessage ty body isModal st) = aiResponseCalls st"
  by (simp add: addChatMessage_def Let_def)

lemma whitespaceSeqs_nonempty: "w \<in> set whitespaceSeqs \<Longrightarrow> w \<noteq> []"
  unfolding whitespaceSeqs_def by auto

lemma matchLength_all:
  "\<forall>w \<in> set whitespaceSeqs. \<forall>r. matchLength whitespaceSeqs (w @ r) = length w"
  unfolding whitespaceSeqs_def by simp

lemma matchLength_hit:
  "w \<in> set whitespaceSeqs \<Longrightarrow> matchLength whitespaceSeqs (w @ r) = length w"
  using matchLength_all by blast

lemma stripLeading_whitespace:
  assumes "w \<in> set whitespaceSeqs"
  shows "stripLeading whitespaceSeqs (w @ r) = stripLeading whitespaceSeqs r"
proof -
  obtain c w' where w: "w = c # w'"
    using whitespaceSeqs_nonempty [OF assms] by (cases w) auto
  have m: "matchLength whitespaceSeqs (c # (w' @ r)) = Suc (length w')"
    using matchLength_hit [OF assms, of r] w by simp
  have "stripLeading whitespaceSeqs (c # (w' @ r)) = stripLeading whitespaceSeqs r"
    by (simp only: stripLeading.simps m Let_def) simp
  then show ?thesis using w by simp
qed

lemma trimStart_blank:
  assumes "set ws \<subseteq> set whitespaceSeqs"
  shows "trimStart (concat ws) = []"
  using assms
proof (induction ws)
  case Nil
  then show ?case by (simp add: trimStart_def)
next
  case (Cons w ws)
  then have "w \<in> set whitespaceSeqs" and "trimStart (concat ws) = []" by auto
  then show ?case by (simp add: trimStart_def stripLeading_whitespace)
qed

lemma trim_blank:
  assumes "set ws \<subseteq> set whitespaceSeqs"
  shows "trim (concat ws) = []"
  by (simp add: trim_def trimEnd_def trimStart_blank [OF assms])

lemma trim_examples:
  "trim ''hello'' = ''hello''"
  "trim ''  hi there \<newline>'' = ''hi there''"
  "trim ([CHR 0xC2, CHR 0xA0] @ ''a b'' @ [CHR 0xE3, CHR 0x80, CHR 0x80, CHR 0x09]) = ''a b''"
  by (simp_all add: trim_def trimEnd_def trimStart_def whitespaceSeqs_def)

lemma sendChatMessage_blank:
  assumes "trim (inputValue isModal st) = []"
  shows "sendChatMessage isModal st = st"
  using assms by (simp add: sendChatMessage_def Let_def)

lemma sendChatMessage_log:
  assumes "trim (inputValue isModal st) \<noteq> []"
  shows "\<exists>reply. chatMessages (sendChatMessage isModal st) =
           chatMessages st @ [\<lparr>type = ''user'', content = trim (inputValue isModal st)\<rparr>,
                              \<lparr>type = ''ai'', content = reply\<rparr>]"
  using assms
  by (simp add: sendChatMessage_def Let_def split_beta chatMessages_addChatMessage
      chatMessages_generateAIResponse)

lemma sendChatMessage_calls:
  assumes "trim (inputValue isModal st) \<noteq> []"
  shows "aiResponseCalls (sendChatMessage isModal st) = Suc (aiResponseCalls st)"
  using assms
  by (simp add: sendChatMessage_def Let_def split_beta aiResponseCalls_addChatMessage
      aiResponseCalls_generateAIResponse)

lemma role_of_user_ai:
  "role_of \<lparr>type = ''user'', content = c\<rparr> = Some User"
  "role_of \<lparr>type = ''ai'', content = c\<rparr> = Some Assistant"
  by (simp_all add: role_of_def)

subsection \<open>Sending a message\<close>

text \<open>
  C6. When the value of the input field is empty or holds white space only, that is
  when it is a sequence of zero or more of the white-space characters and line
  terminators that \<open>trim\<close> removes (the no-break space, the ideographic space and
  the other ones beyond ASCII included), \<open>sendChatMessage\<close> returns the state it was
  given: \<open>chatMessages\<close> is unchanged and \<open>generateAIResponse\<close> has not been called.
\<close>

theorem C6_blank_input_ignored:
  assumes "inputValue isModal st = concat ws" and "set ws \<subseteq> set whitespaceSeqs"
  shows "sendChatMessage isModal st = st
         \<and> chatMessages (sendChatMessage isModal st) = chatMessages st
         \<and> aiResponseCalls (sendChatMessage isModal st) = aiResponseCalls st"
proof -
  have "trim (inputValue isModal st) = []"
    unfolding assms(1) using assms(2) by (rule trim_blank)
  then show ?thesis by (simp add: sendChatMessage_blank)
qed

theorem C6_blank_input_ignored_witness:
  "inputValue False
       \<lparr>currentLocation = None, chatMessages = [],
        chatInputValue = [CHR 0xC2, CHR 0xA0, CHR 0x20, CHR 0x0A, CHR 0xE3, CHR 0x80, CHR 0x80],
        modalChatInputValue = ''hello'', chatMessagesDiv = [], modalChatMessagesDiv = [],
        random = sconst 0, aiResponseCalls = 0\<rparr>
     = concat [[CHR 0xC2, CHR 0xA0], [CHR 0x20], [CHR 0x0A], [CHR 0xE3, CHR 0x80, CHR 0x80]]
   \<and> set [[CHR 0xC2, CHR 0xA0], [CHR 0x20], [CHR 0x0A], [CHR 0xE3, CHR 0x80, CHR 0x80]]
       \<subseteq> set whitespaceSeqs
   \<and> chatMessages (sendChatMessage False
       \<lparr>currentLocation = None, chatMessages = [],
        chatInputValue = [CHR 0xC2, CHR 0xA0, CHR 0x20, CHR 0x0A, CHR 0xE3, CHR 0x80, CHR 0x80],
        modalChatInputValue = ''hello'', chatMessagesDiv = [], modalChatMessagesDiv = [],
        random = sconst 0, aiResponseCalls = 0\<rparr>) = []
   \<and> aiResponseCalls (sendChatMessage False
       \<lparr>currentLocation = None, chatMessages = [],
        chatInputValue = [CHR 0xC2, CHR 0xA0, CHR 0x20, CHR 0x0A, CHR 0xE3, CHR 0x80, CHR 0x80],
        modalChatInputValue = ''hello'', chatMessagesDiv = [], modalChatMessagesDiv = [],
        random = sconst 0, aiResponseCalls = 0\<rparr>) = 0"
proof -
  let ?s = "\<lparr>currentLocation = None, chatMessages = [],
        chatInputValue = [CHR 0xC2, CHR 0xA0, CHR 0x20, CHR 0x0A, CHR 0xE3, CHR 0x80, CHR 0x80],
        modalChatInputValue = ''hello'', chatMessagesDiv = [], modalChatMessagesDiv = [],
        random = sconst 0, aiResponseCalls = 0\<rparr>"
  let ?ws = "[[CHR 0xC2, CHR 0xA0], [CHR 0x20], [CHR 0x0A], [CHR 0xE3, CHR 0x80, CHR 0x80]]"
  have a: "inputValue False ?s = concat ?ws"
    by (simp add: inputValue_def)
  have b: "set ?ws \<subseteq> set whitespaceSeqs"
    by (simp add: whitespaceSeqs_def)
  note w = C6_blank_input_ignored [OF a b]
  have c: "chatMessages (sendChatMessage False ?s) = []"
    using w by simp
  have d: "aiResponseCalls (sendChatMessage False ?s) = 0"
    using w by simp
  show ?thesis
    by (intro conjI a b c d)
qed

subsection \<open>The chat log\<close>

text \<open>
  C7. After \<open>addChatMessage\<close> for a message A and then for a message B, the array
  \<open>chatMessages\<close> is what it was followed by A and B, in this order; from the empty
  array it is A, B. One call of \<open>addChatMessage\<close> leaves every entry that was
  stored where and as it was, and makes the array one entry longer.
\<close>

theorem C7_append_in_order:
  "chatMessages (addChatMessage tb cb mb (addChatMessage ta ca ma st)) =
     chatMessages st @ [\<lparr>type = ta, content = ca\<rparr>, \<lparr>type = tb, content = cb\<rparr>]
   \<and> chatMessages (addChatMessage tb cb mb (addChatMessage ta ca ma (st\<lparr>chatMessages := []\<rparr>))) =
     [\<lparr>type = ta, content = ca\<rparr>, \<lparr>type = tb, content = cb\<rparr>]
   \<and> take (length (chatMessages st)) (chatMessages (addChatMessage ta ca ma st)) =
     chatMessages st
   \<and> length (chatMessages (addChatMessage ta ca ma st)) = Suc (length (chatMessages st))"
  by (simp add: chatMessages_addChatMessage)

text \<open>
  C8. In every state of a page session, each entry of \<open>chatMessages\<close> carries the tag
  \<open>user\<close> or the tag \<open>ai\<close>, that is the role of the user or of the assistant. Its
  content is a string by the type of the record: \<open>addChatMessage\<close> is given the trimmed
  input, a reply of \<open>generateAIResponse\<close> or the fixed image analysis.
\<close>

theorem C8_entries_have_role:
  assumes "reachable st"
  shows "\<forall>e \<in> set (chatMessages st).
           (type e = ''user'' \<and> role_of e = Some User)
           \<or> (type e = ''ai'' \<and> role_of e = Some Assistant)"
  using assms
proof (induction rule: reachable.induct)
  case (page_load st)
  then show ?case by simp
next
  case (send st isModal)
  show ?case
  proof (cases "trim (inputValue isModal st) = []")
    case True
    then show ?thesis using send.IH by (simp add: sendChatMessage_blank)
  next
    case False
    from sendChatMessage_log [OF False] obtain reply where
      "chatMessages (sendChatMessage isModal st) =
         chatMessages st @ [\<lparr>type = ''user'', content = trim (inputValue isModal st)\<rparr>,
                            \<lparr>type = ''ai'', content = reply\<rparr>]"
      by blast
    then show ?thesis using send.IH by (auto simp: role_of_user_ai)
  qed
next
  case (image st isModal)
  then show ?case
    by (auto simp: imageAnalysisDone_def chatMessages_addChatMessage role_of_user_ai)
next
  case (other st st')
  then show ?case by simp
qed

theorem C8_entries_have_role_witness:
  "reachable (sendChatMessage False
       \<lparr>currentLocation = None, chatMessages = [], chatInputValue = ''hello'',
        modalChatInputValue = [], chatMessagesDiv = [], modalChatMessagesDiv = [],
        random = sconst 0, aiResponseCalls = 0\<rparr>)
   \<and> map type (chatMessages (sendChatMessage False
       \<lparr>currentLocation = None, chatMessages = [], chatInputValue = ''hello'',
        modalChatInputValue = [], chatMessagesDiv = [], modalChatMessagesDiv = [],
        random = sconst 0, aiResponseCalls = 0\<rparr>)) = [''user'', ''ai'']"
proof -
  let ?s0 = "\<lparr>currentLocation = None, chatMessages = [], chatInputValue = ''hello'',
        modalChatInputValue = [], chatMessagesDiv = [], modalChatMessagesDiv = [],
        random = sconst 0, aiResponseCalls = 0\<rparr>"
  have r: "reachable (sendChatMessage False ?s0)"
    by (rule reachable.send, rule reachable.page_load) simp
  have t: "trim (inputValue False ?s0) = ''hello''"
    by (simp add: trim_def trimEnd_def trimStart_def whitespaceSeqs_def inputValue_def)
  have m: "map type (chatMessages (sendChatMessage False ?s0)) = [''user'', ''ai'']"
    by (simp add: sendChatMessage_def Let_def split_beta t chatMessages_addChatMessage
        chatMessages_generateAIResponse)
  show ?thesis
    using r m C8_entries_have_role [OF r] by simp
qed

end
